theory Spec2Isabelle
  imports Main "HOL-Library.Sublist"
begin

section \<open>Python strings\<close>

text \<open>
  A Python \<open>str\<close> is a sequence of code points, and \<open>len\<close>, indexing and slicing count
  code points. A code point is the integer that \<open>ord\<close> gives; \<open>cps\<close> turns an ASCII
  literal into its code points.
\<close>

type_synonym str = "int list"

definition cps :: "string \<Rightarrow> str" where
  "cps s = map of_char s"

text \<open>
  \<open>str.lower\<close> on one code point. The ASCII capitals and the Latin-1 capitals
  \<open>0xC0..0xDE\<close> (without the multiplication sign \<open>0xD7\<close>) move up by 32. U+0130, the
  capital I with dot above, is the one code point whose lower-case form has two code
  points: \<open>i\<close> and the combining dot U+0307. U+0178, U+1E9E, U+212A (Kelvin sign) and
  U+212B (Angstrom sign) are the capitals above 255 whose lower-case form lies below 256.
  Every other capital has a lower-case form that is a single code point above 255 and no
  whitespace; the model keeps such a code point as it is, which no search for an ASCII text
  can tell from its lower-case form.
\<close>

definition lower_cp :: "int \<Rightarrow> int list" where
  "lower_cp c =
     (if 65 \<le> c \<and> c \<le> 90 then [c + 32]
      else if 192 \<le> c \<and> c \<le> 222 \<and> c \<noteq> 215 then [c + 32]
      else if c = 304 then [105, 775]
      else if c = 376 then [255]
      else if c = 7838 then [223]
      else if c = 8490 then [107]
      else if c = 8491 then [229]
      else [c])"

definition str_lower :: "str \<Rightarrow> str" where
  "str_lower s = concat (map lower_cp s)"

text \<open>\<open>str.isspace\<close> on one code point: the whitespace of Unicode.\<close>

definition isspace :: "int \<Rightarrow> bool" where
  "isspace c = (c \<in> set [9, 10, 11, 12, 13, 28, 29, 30, 31, 32, 133, 160, 5760,
      8192, 8193, 8194, 8195, 8196, 8197, 8198, 8199, 8200, 8201, 8202,
      8232, 8233, 8239, 8287, 12288])"

text \<open>\<open>s.strip()\<close>: leading and trailing whitespace removed.\<close>

definition str_strip :: "str \<Rightarrow> str" where
  "str_strip s = rev (dropWhile isspace (rev (dropWhile isspace s)))"

text \<open>
  \<open>s.find(sub)\<close>: the lowest index at which \<open>sub\<close> starts in \<open>s\<close>, or \<open>-1\<close>.
  \<open>find_at sub s i\<close> scans \<open>s\<close>, whose first code point has index \<open>i\<close>.
\<close>

primrec find_at :: "str \<Rightarrow> str \<Rightarrow> nat \<Rightarrow> int" where
  "find_at sub [] i = (if sub = [] then int i else - 1)"
| "find_at sub (c # cs) i = (if prefix sub (c # cs) then int i else find_at sub cs (Suc i))"

definition str_find :: "str \<Rightarrow> str \<Rightarrow> int" where
  "str_find s sub = find_at sub s 0"

text \<open>\<open>sub in s\<close>.\<close>

primrec str_contains :: "str \<Rightarrow> str \<Rightarrow> bool" where
  "str_contains sub [] = (sub = [])"
| "str_contains sub (c # cs) = (prefix sub (c # cs) \<or> str_contains sub cs)"

section \<open>SQL helpers\<close>

text \<open>The columns of table \<open>mid_drugs\<close>.\<close>

definition EXPECTED_COLUMNS :: "str list" where
  "EXPECTED_COLUMNS = map cps
     [''name'', ''link'', ''contains'', ''productintroduction'', ''productuses'',
      ''productbenefits'', ''sideeffect'', ''howtouse'', ''howworks'', ''quicktips'',
      ''safetyadvice'', ''chemical_class'', ''habit_forming'', ''therapeutic_class'',
      ''action_class'']"

definition SAFE_DEFAULT :: str where
  "SAFE_DEFAULT = cps ''SELECT * FROM mid_drugs LIMIT 10;''"

definition WILDCARD_DEFAULT :: str where
  "WILDCARD_DEFAULT = cps ''SELECT * FROM mid_drugs WHERE name LIKE '%keyword%' LIMIT 10;''"

text \<open>
  \<^verbatim>\<open>
  def extract_sql(text: str) -> str:
      idx = text.lower().find("select")
      if idx == -1:
          return "SELECT * FROM mid_drugs LIMIT 10;"
      sql = text[idx:].strip()
      if " join " in sql.lower():
          return "SELECT * FROM mid_drugs LIMIT 10;"
      if "drug_name" in sql.lower():
          return "SELECT * FROM mid_drugs WHERE name LIKE '%keyword%' LIMIT 10;"
      return sql
  \<close>
  The index is found in the lower-cased text and used to slice the text itself.
\<close>

definition extract_sql :: "str \<Rightarrow> str" where
  "extract_sql text =
     (let idx = str_find (str_lower text) (cps ''select'')
      in if idx = - 1 then SAFE_DEFAULT
         else let sql = str_strip (drop (nat idx) text)
              in if str_contains (cps '' join '') (str_lower sql) then SAFE_DEFAULT
                 else if str_contains (cps ''drug_name'') (str_lower sql) then WILDCARD_DEFAULT
                 else sql)"

section \<open>JSON serialisation\<close>

text \<open>
  The values that reach \<open>json.dumps\<close>: the rows of the data frame, the documents and the
  metadata of the vector store. A dictionary keeps its insertion order, so an object is an
  association list. Floating-point values are not modelled.
\<close>

datatype json =
    JNull
  | JBool bool
  | JInt int
  | JStr str
  | JList "json list"
  | JObj "(str \<times> json) list"

text \<open>\<open>sep.join(xs)\<close>.\<close>

fun str_join :: "str \<Rightarrow> str list \<Rightarrow> str" where
  "str_join sep [] = []"
| "str_join sep [x] = x"
| "str_join sep (x # y # ys) = x @ sep @ str_join sep (y # ys)"

text \<open>A hexadecimal digit in lower case, and the four digits of a number below 65536.\<close>

definition hex_digit :: "int \<Rightarrow> int" where
  "hex_digit d = (if d < 10 then 48 + d else 87 + d)"

definition hex4 :: "int \<Rightarrow> str" where
  "hex4 n = [hex_digit (n div 4096 mod 16), hex_digit (n div 256 mod 16),
             hex_digit (n div 16 mod 16), hex_digit (n mod 16)]"

text \<open>
  \<open>json.dumps\<close> escapes with \<open>ensure_ascii=True\<close>: the quote and the backslash get a
  backslash, five control characters have short forms, and every other code point outside
  \<open>' '..'~'\<close> is written \<open>\uXXXX\<close> in lower-case hexadecimal, as a surrogate pair when it
  lies above U+FFFF.
\<close>

definition escape_char :: "int \<Rightarrow> str" where
  "escape_char n =
     (if n = 34 then [92, 34]
      else if n = 92 then [92, 92]
      else if n = 10 then [92, 110]
      else if n = 13 then [92, 114]
      else if n = 9 then [92, 116]
      else if n = 8 then [92, 98]
      else if n = 12 then [92, 102]
      else if 32 \<le> n \<and> n \<le> 126 then [n]
      else if n < 65536 then [92, 117] @ hex4 n
      else [92, 117] @ hex4 (55296 + (n - 65536) div 1024 mod 1024)
           @ [92, 117] @ hex4 (56320 + (n - 65536) mod 1024))"

definition encode_str :: "str \<Rightarrow> str" where
  "encode_str s = [34] @ concat (map escape_char s) @ [34]"

text \<open>\<open>str(n)\<close> for an integer.\<close>

fun str_nat :: "nat \<Rightarrow> str" where
  "str_nat n = (if n < 10 then [48 + int n] else str_nat (n div 10) @ [48 + int (n mod 10)])"

definition str_int :: "int \<Rightarrow> str" where
  "str_int i = (if i < 0 then 45 # str_nat (nat (- i)) else str_nat (nat i))"

text \<open>A line break followed by the indentation of nesting level \<open>k\<close>, two blanks a level.\<close>

definition newline_indent :: "nat \<Rightarrow> str" where
  "newline_indent k = 10 # replicate (2 * k) 32"

text \<open>
  \<open>json.dumps(v, indent=2)\<close> at nesting level \<open>lvl\<close>: an empty list is \<open>[]\<close> and an empty
  dictionary \<open>{}\<close>; otherwise each item stands on its own line, one level deeper, items
  separated by a comma, a key separated from its value by a colon and a blank.
\<close>

fun json_encode :: "nat \<Rightarrow> json \<Rightarrow> str" where
  "json_encode lvl JNull = cps ''null''"
| "json_encode lvl (JBool b) = (if b then cps ''true'' else cps ''false'')"
| "json_encode lvl (JInt i) = str_int i"
| "json_encode lvl (JStr s) = encode_str s"
| "json_encode lvl (JList xs) =
     (if xs = [] then cps ''[]''
      else cps ''['' @ newline_indent (Suc lvl)
           @ str_join (cps '','' @ newline_indent (Suc lvl)) (map (json_encode (Suc lvl)) xs)
           @ newline_indent lvl @ cps '']'')"
| "json_encode lvl (JObj kvs) =
     (if kvs = [] then cps ''{}''
      else cps ''{'' @ newline_indent (Suc lvl)
           @ str_join (cps '','' @ newline_indent (Suc lvl))
               (map (\<lambda>(k, v). encode_str k @ cps '': '' @ json_encode (Suc lvl) v) kvs)
           @ newline_indent lvl @ cps ''}'')"

definition json_dumps :: "json \<Rightarrow> str" where
  "json_dumps v = json_encode 0 v"


text \<open>
  An exception raised by a collaborator (an instance of \<open>Exception\<close>) with the text
  \<open>str(e)\<close>. A call that may raise returns \<open>exc + 'a\<close>, \<open>Inl\<close> for the exception.
\<close>

datatype exc = Exc str

fun str_exc :: "exc \<Rightarrow> str" where
  "str_exc (Exc m) = m"

text \<open>One row of the data frame, as \<open>to_dict(orient="records")\<close> gives it.\<close>

type_synonym row = "(str \<times> json) list"

text \<open>
  What \<open>col.query\<close> returns: for each query embedding one list of documents and one list
  of metadata.
\<close>

record query_result =
  documents :: "str list list"
  metadatas :: "json list list"

text \<open>A collection of the vector store; \<open>'v\<close> is the type of an embedding.\<close>

record 'v collection =
  col_query :: "'v \<Rightarrow> nat \<Rightarrow> exc + query_result"

text \<open>
  The collaborators of the module: the Ollama client (\<open>generate\<close>, \<open>embeddings\<close>), SQLite
  with pandas (\<open>sqlite3.connect\<close>, \<open>pd.read_sql_query\<close>) and the Chroma client
  (\<open>get_collection\<close>, \<open>create_collection\<close>). \<open>generate\<close> stands for the call and the read
  of \<open>resp["response"]\<close>, \<open>embeddings\<close> for the call and the read of \<open>resp["embedding"]\<close>.
  Console output is not part of the model.
\<close>

record 'v collab =
  generate :: "str \<Rightarrow> exc + str"
  embeddings :: "str \<Rightarrow> exc + 'v"
  sqlite_connect :: "exc + unit"
  read_sql_query :: "str \<Rightarrow> exc + row list"
  client_get_collection :: "exc + 'v collection"
  client_create_collection :: "exc + 'v collection"

text \<open>The calls made to the collaborators, in the order they are made.\<close>

datatype 'v event =
    EvGenerate str
  | EvEmbeddings str
  | EvConnect
  | EvReadSql str
  | EvClose
  | EvGetCollection
  | EvCreateCollection
  | EvQuery 'v nat


text \<open>
  A computation gives its result or exception together with the calls it made. Sequencing
  stops at the first exception, as a raise does.
\<close>

type_synonym ('a, 'v) io = "(exc + 'a) \<times> 'v event list"

definition bind_io :: "('a, 'v) io \<Rightarrow> ('a \<Rightarrow> ('b, 'v) io) \<Rightarrow> ('b, 'v) io" where
  "bind_io m f =
     (case m of
        (Inl e, t) \<Rightarrow> (Inl e, t)
      | (Inr x, t) \<Rightarrow> (case f x of (r, t') \<Rightarrow> (r, t @ t')))"

section \<open>Structured retrieval\<close>

text \<open>
  \<^verbatim>\<open>
  def run_sql(sql: str) -> pd.DataFrame:
      conn = sqlite3.connect(DB_PATH)
      try:
          return pd.read_sql_query(sql, conn)
      finally:
          conn.close()
  \<close>
\<close>

definition run_sql :: "'v collab \<Rightarrow> str \<Rightarrow> (row list, 'v) io" where
  "run_sql c sql =
     (case sqlite_connect c of
        Inl e \<Rightarrow> (Inl e, [EvConnect])
      | Inr _ \<Rightarrow> (read_sql_query c sql, [EvConnect, EvReadSql sql, EvClose]))"

section \<open>Vector store\<close>

text \<open>
  \<^verbatim>\<open>
  def get_collection():
      client = PersistentClient(path=CHROMA_DIR)
      try:
          return client.get_collection(CHROMA_COLLECTION)
      except:
          return client.create_collection(CHROMA_COLLECTION, metadata={"hnsw:space": "cosine"})
  \<close>
\<close>

definition get_collection :: "'v collab \<Rightarrow> ('v collection, 'v) io" where
  "get_collection c =
     (case client_get_collection c of
        Inr col \<Rightarrow> (Inr col, [EvGetCollection])
      | Inl _ \<Rightarrow> (client_create_collection c, [EvGetCollection, EvCreateCollection]))"

definition embed :: "'v collab \<Rightarrow> str \<Rightarrow> ('v, 'v) io" where
  "embed c text = (embeddings c text, [EvEmbeddings text])"

text \<open>\<open>xs[0]\<close>, which raises \<open>IndexError\<close> on an empty list.\<close>

definition first_item :: "'a list \<Rightarrow> ('a, 'v) io" where
  "first_item xs =
     (case xs of [] \<Rightarrow> (Inl (Exc (cps ''list index out of range'')), []) | x # _ \<Rightarrow> (Inr x, []))"

text \<open>
  \<^verbatim>\<open>
  def vector_search(query: str):
      col = get_collection()
      qvec = embed(query)
      res = col.query(query_embeddings=[qvec], n_results=5)
      docs = res["documents"][0]
      metas = res["metadatas"][0]
      return [{"text": d, "meta": m} for d, m in zip(docs, metas)]
  \<close>
\<close>

definition vector_search :: "'v collab \<Rightarrow> str \<Rightarrow> (json list, 'v) io" where
  "vector_search c query =
     bind_io (get_collection c) (\<lambda>col.
     bind_io (embed c query) (\<lambda>qvec.
     bind_io (col_query col qvec 5, [EvQuery qvec 5]) (\<lambda>res.
     bind_io (first_item (documents res)) (\<lambda>docs.
     bind_io (first_item (metadatas res)) (\<lambda>metas.
       (Inr (map (\<lambda>(d, m). JObj [(cps ''text'', JStr d), (cps ''meta'', m)]) (zip docs metas)), []))))))"

section \<open>Chat\<close>

record message =
  role :: str
  content :: str

text \<open>
  \<^verbatim>\<open>
  def chat(messages):
      prompt = ""
      for m in messages:
          prompt += f"{m['role']}: {m['content']}\n"
      prompt += "assistant:"
      resp = ollama.generate(model=MODEL_CHAT, prompt=prompt)
      return resp["response"]
  \<close>
\<close>

definition chat_prompt :: "message list \<Rightarrow> str" where
  "chat_prompt messages =
     foldl (\<lambda>prompt m. prompt @ role m @ cps '': '' @ content m @ [10]) [] messages
     @ cps ''assistant:''"

definition chat :: "'v collab \<Rightarrow> message list \<Rightarrow> (str, 'v) io" where
  "chat c messages =
     (let prompt = chat_prompt messages in (generate c prompt, [EvGenerate prompt]))"

section \<open>Hybrid retrieval\<close>

definition SQL_SYSTEM :: str where
  "SQL_SYSTEM = str_join [10]
     [cps ''You write SQL for a SQLite table named mid_drugs.'',
      [],
      cps ''VALID COLUMNS:'',
      cps ''name, link, contains, productintroduction, productuses, productbenefits,'',
      cps ''sideeffect, howtouse, howworks, quicktips, safetyadvice, chemical_class,'',
      cps ''habit_forming, therapeutic_class, action_class'',
      [],
      cps ''RULES:'',
      cps ''- Only use SELECT'',
      cps ''- Never use JOIN'',
      cps ''- Never invent columns'',
      cps ''- If unsure, use:'',
      cps ''  SELECT * FROM mid_drugs WHERE name LIKE '%keyword%' LIMIT 10;'']"

definition ANSWER_SYSTEM :: str where
  "ANSWER_SYSTEM = str_join [10]
     [cps ''You answer using ONLY:'',
      cps ''- SQL rows'',
      cps ''- vector documents'',
      [],
      cps ''Never invent facts.'']"

text \<open>
  \<^verbatim>\<open>
  def generate_sql(question: str) -> str:
      messages = [
          {"role": "system", "content": SQL_SYSTEM},
          {"role": "user", "content": question},
      ]
      raw = chat(messages)
      return extract_sql(raw)
  \<close>
\<close>

definition sql_messages :: "str \<Rightarrow> message list" where
  "sql_messages question =
     [\<lparr>role = cps ''system'', content = SQL_SYSTEM\<rparr>, \<lparr>role = cps ''user'', content = question\<rparr>]"

definition generate_sql :: "'v collab \<Rightarrow> str \<Rightarrow> (str, 'v) io" where
  "generate_sql c question =
     bind_io (chat c (sql_messages question)) (\<lambda>raw. (Inr (extract_sql raw), []))"

text \<open>
  \<^verbatim>\<open>
  def answer_hybrid(question: str, df_sql, vec_docs):
      ctx = {
          "sql_rows": df_sql.to_dict(orient="records"),
          "vector_docs": vec_docs
      }
      messages = [
          {"role": "system", "content": ANSWER_SYSTEM},
          {"role": "assistant", "content": json.dumps(ctx, indent=2)},
          {"role": "user", "content": question},
      ]
      return chat(messages)
  \<close>
  The data frame is the list of its rows.
\<close>

definition ctx :: "row list \<Rightarrow> json list \<Rightarrow> json" where
  "ctx df_sql vec_docs =
     JObj [(cps ''sql_rows'', JList (map JObj df_sql)), (cps ''vector_docs'', JList vec_docs)]"

definition answer_messages :: "str \<Rightarrow> row list \<Rightarrow> json list \<Rightarrow> message list" where
  "answer_messages question df_sql vec_docs =
     [\<lparr>role = cps ''system'', content = ANSWER_SYSTEM\<rparr>,
      \<lparr>role = cps ''assistant'', content = json_dumps (ctx df_sql vec_docs)\<rparr>,
      \<lparr>role = cps ''user'', content = question\<rparr>]"

definition answer_hybrid ::
  "'v collab \<Rightarrow> str \<Rightarrow> row list \<Rightarrow> json list \<Rightarrow> (str, 'v) io" where
  "answer_hybrid c question df_sql vec_docs = chat c (answer_messages question df_sql vec_docs)"

text \<open>
  \<^verbatim>\<open>
  def ask_mid(question: str):
      sql = generate_sql(question)
      try:
          df = run_sql(sql)
      except Exception as e:
          return f"SQL error: {e}"
      vec = vector_search(question)
      return answer_hybrid(question, df, vec)
  \<close>
  The \<open>try\<close> encloses the call of \<open>run_sql\<close> and nothing else.
\<close>

definition ask_mid :: "'v collab \<Rightarrow> str \<Rightarrow> (str, 'v) io" where
  "ask_mid c question =
     bind_io (generate_sql c question) (\<lambda>sql.
       case run_sql c sql of
         (Inl e, t) \<Rightarrow> (Inr (cps ''SQL error: '' @ str_exc e), t)
       | (Inr df, t) \<Rightarrow>
           bind_io (Inr df, t) (\<lambda>df.
           bind_io (vector_search c question) (\<lambda>vec.
             answer_hybrid c question df vec)))"

section \<open>The vector index\<close>

text \<open>
  Modelled from the spec: the vector index collaborator of sections 4.3 and 6, which is
  ChromaDB and no code of this repository. An entry is an id, an embedding, a document
  text and metadata. \<open>delete_all()\<close> removes every entry; an insertion stores entries and
  replaces an entry of the same id; \<open>query(embedding, k)\<close> returns the at most \<open>k\<close> entries
  nearest to the embedding, ranked by descending similarity. The similarity (cosine, by
  the metadata of the collection) is the parameter \<open>sim\<close>, with values in a linear order.
\<close>

record 'v entry =
  entry_id :: str
  entry_embedding :: 'v
  entry_document :: str
  entry_metadata :: json



definition ranked :: "('v \<Rightarrow> 'v \<Rightarrow> 's::linorder) \<Rightarrow> 'v entry list \<Rightarrow> 'v \<Rightarrow> nat \<Rightarrow> 'v entry list" where
  "ranked sim idx qvec k = take k (rev (sort_key (\<lambda>e. sim qvec (entry_embedding e)) idx))"

text \<open>
  The collection that a reader gets while the index holds \<open>idx\<close>: for the one query
  embedding, the documents and the metadata of the ranked entries.
\<close>

definition index_collection :: "('v \<Rightarrow> 'v \<Rightarrow> 's::linorder) \<Rightarrow> 'v entry list \<Rightarrow> 'v collection" where
  "index_collection sim idx =
     \<lparr>col_query = (\<lambda>qvec k.
        let es = ranked sim idx qvec k
        in Inr \<lparr>documents = [map entry_document es], metadatas = [map entry_metadata es]\<rparr>)\<rparr>"

text \<open>The passage that \<open>vector_search\<close> builds from an entry.\<close>

definition passage :: "'v entry \<Rightarrow> json" where
  "passage e = JObj [(cps ''text'', JStr (entry_document e)), (cps ''meta'', entry_metadata e)]"

section \<open>Building the vector store\<close>











section \<open>Stand-ins for the collaborators\<close>

text \<open>
  Concrete collaborators on which the theorems below are run: a chat model that answers
  the SQL prompt with a query and every other prompt with a sentence, a store with one row,
  and an index with one entry. Embeddings are natural numbers here.
\<close>

definition stub :: "nat collab" where
  "stub =
     \<lparr>generate = (\<lambda>prompt.
        if prefix (cps ''system: You write SQL'') prompt
        then Inr (cps ''Sure: SELECT name FROM mid_drugs LIMIT 2'')
        else Inr (cps ''Aspirin relieves pain.'')),
      embeddings = (\<lambda>text. Inr 7),
      sqlite_connect = Inr (),
      read_sql_query = (\<lambda>sql. Inr [[(cps ''name'', JStr (cps ''Aspirin''))]]),
      client_get_collection =
        Inr \<lparr>col_query = (\<lambda>qvec n. Inr \<lparr>documents = [[cps ''Aspirin relieves pain'']],
                                           metadatas = [[JObj [(cps ''name'', JStr (cps ''Aspirin''))]]]\<rparr>)\<rparr>,
      client_create_collection = Inl (Exc (cps ''Collection mid_vectors already exists''))\<rparr>"

text \<open>A chat model that is down, and one that goes down after it has written the query.\<close>

definition chat_down :: "str \<Rightarrow> exc + str" where
  "chat_down prompt = Inl (Exc (cps ''connection refused''))"

definition answer_down :: "str \<Rightarrow> exc + str" where
  "answer_down prompt =
     (if prefix (cps ''system: You write SQL'') prompt
      then Inr (cps ''SELECT name FROM mid_drugs LIMIT 2'')
      else Inl (Exc (cps ''connection refused'')))"

text \<open>
  A similarity on these embeddings (the nearer two numbers, the greater), an index of seven
  entries, and the collaborators of a reader that meets the index with content \<open>idx\<close>.
\<close>

definition nearness :: "nat \<Rightarrow> nat \<Rightarrow> int" where
  "nearness a b = - \<bar>int a - int b\<bar>"

definition doc_entry :: "nat \<Rightarrow> nat \<Rightarrow> nat entry" where
  "doc_entry i v =
     \<lparr>entry_id = str_nat i, entry_embedding = v,
      entry_document = cps ''doc '' @ str_nat v, entry_metadata = JObj [(cps ''n'', JInt (int v))]\<rparr>"

definition seven_entries :: "nat entry list" where
  "seven_entries = map (\<lambda>(i, v). doc_entry i v) (zip [0..<7] [1, 9, 7, 20, 6, 3, 12])"

definition reader :: "nat entry list \<Rightarrow> nat collab" where
  "reader idx = stub\<lparr>client_get_collection := Inr (index_collection nearness idx)\<rparr>"


section \<open>Facts about the string operations\<close>

lemma cps_select: "cps ''select'' = [115, 101, 108, 101, 99, 116]"
  by (simp add: cps_def)

lemma cps_selec: "cps ''selec'' = butlast (cps ''select'')"
  by (simp add: cps_def)

lemma prefix_of_front:
  assumes "prefix xs (ys @ zs)" and "length xs \<le> length ys"
  shows "prefix xs ys"
  using assms by (auto simp: prefix_append)

lemma find_at_absent: "\<not> str_contains sub s \<Longrightarrow> find_at sub s i = - 1"
  by (induction s arbitrary: i) auto

text \<open>
  If \<open>sub\<close> occurs after \<open>p\<close> and nowhere earlier (no occurrence starts inside \<open>p\<close>),
  the scan stops exactly behind \<open>p\<close>.
\<close>

lemma find_at_first:
  assumes "sub \<noteq> []" and "\<not> str_contains sub (p @ butlast sub)"
  shows "find_at sub (p @ sub @ q) i = int (i + length p)"
  using assms(2)
proof (induction p arbitrary: i)
  case Nil
  from assms(1) obtain c cs where "sub = c # cs" by (cases sub) auto
  then show ?case by simp
next
  case (Cons a p)
  have np: "\<not> prefix sub (a # p @ butlast sub)" and rest: "\<not> str_contains sub (p @ butlast sub)"
    using Cons.prems by auto
  have "\<not> prefix sub (a # p @ sub @ q)"
  proof
    assume h: "prefix sub (a # p @ sub @ q)"
    have "a # p @ sub @ q = (a # p @ butlast sub) @ ([last sub] @ q)"
      using assms(1) by simp
    moreover have "length sub \<le> length (a # p @ butlast sub)" by simp
    ultimately have "prefix sub (a # p @ butlast sub)"
      using h prefix_of_front by metis
    with np show False by contradiction
  qed
  then show ?case using Cons.IH [OF rest, of "Suc i"] by simp
qed




lemma str_find_absent: "\<not> str_contains sub s \<Longrightarrow> str_find s sub = - 1"
  by (simp add: str_find_def find_at_absent)

lemma str_find_first:
  "sub \<noteq> [] \<Longrightarrow> \<not> str_contains sub (p @ butlast sub) \<Longrightarrow>
     str_find (p @ sub @ q) sub = int (length p)"
  by (simp add: str_find_def find_at_first)



text \<open>
  Lower-casing is length-preserving on a text without U+0130, and it distributes over
  concatenation.
\<close>

lemma length_lower_cp: "c \<noteq> 304 \<Longrightarrow> length (lower_cp c) = 1"
  by (simp add: lower_cp_def)

lemma length_str_lower: "304 \<notin> set s \<Longrightarrow> length (str_lower s) = length s"
  by (induction s) (simp_all add: str_lower_def length_lower_cp)

lemma str_lower_append: "str_lower (a @ b) = str_lower a @ str_lower b"
  by (simp add: str_lower_def)






section \<open>The validator, branch by branch\<close>

lemma extract_sql_no_select:
  "\<not> str_contains (cps ''select'') (str_lower text) \<Longrightarrow> extract_sql text = SAFE_DEFAULT"
  by (simp add: extract_sql_def str_find_absent)

text \<open>The slice is taken at the index found in the lower-cased text.\<close>

lemma extract_sql_at_select:
  assumes "str_lower text = p @ cps ''select'' @ q"
    and "\<not> str_contains (cps ''select'') (p @ cps ''selec'')"
  shows "extract_sql text =
     (let sql = str_strip (drop (length p) text)
      in if str_contains (cps '' join '') (str_lower sql) then SAFE_DEFAULT
         else if str_contains (cps ''drug_name'') (str_lower sql) then WILDCARD_DEFAULT
         else sql)"
proof -
  have "str_find (p @ cps ''select'' @ q) (cps ''select'') = int (length p)"
    using assms(2) by (intro str_find_first) (simp_all add: cps_selec cps_select)
  then show ?thesis using assms(1) by (simp add: extract_sql_def Let_def)
qed

text \<open>
  When no U+0130 stands before the first \<open>select\<close>, the index is the same in the text and
  in its lower-cased form, and the slice is the text from that \<open>select\<close> on.
\<close>

lemma extract_sql_split:
  assumes "text = a @ b" and "304 \<notin> set a"
    and "prefix (cps ''select'') (str_lower b)"
    and "\<not> str_contains (cps ''select'') (str_lower a @ cps ''selec'')"
  shows "extract_sql text =
     (let sql = str_strip b
      in if str_contains (cps '' join '') (str_lower sql) then SAFE_DEFAULT
         else if str_contains (cps ''drug_name'') (str_lower sql) then WILDCARD_DEFAULT
         else sql)"
proof -
  from assms(3) obtain q where q: "str_lower b = cps ''select'' @ q" by (auto simp: prefix_def)
  have low: "str_lower text = str_lower a @ cps ''select'' @ q"
    using assms(1) q by (simp add: str_lower_append)
  have len: "length (str_lower a) = length a" using assms(2) by (rule length_str_lower)
  have "drop (length (str_lower a)) text = b" using assms(1) len by simp
  then show ?thesis using extract_sql_at_select [OF low assms(4)] by simp
qed

lemma defaults_differ: "SAFE_DEFAULT \<noteq> WILDCARD_DEFAULT"
  by (simp add: SAFE_DEFAULT_def WILDCARD_DEFAULT_def cps_def)

section \<open>Facts about sequencing and serialisation\<close>

lemma bind_io_Inl [simp]: "bind_io (Inl e, t) f = (Inl e, t)"
  by (simp add: bind_io_def)

lemma bind_io_Inr [simp]: "bind_io (Inr x, t) f = (fst (f x), t @ snd (f x))"
  by (simp add: bind_io_def split: prod.splits)

lemma generate_sql_result:
  "generate_sql c question =
     (case generate c (chat_prompt (sql_messages question)) of
        Inl e \<Rightarrow> (Inl e, [EvGenerate (chat_prompt (sql_messages question))])
      | Inr raw \<Rightarrow> (Inr (extract_sql raw), [EvGenerate (chat_prompt (sql_messages question))]))"
  by (simp add: generate_sql_def chat_def Let_def split: sum.splits)


lemma first_item_Cons [simp]: "first_item (x # xs) = (Inr x, [])"
  by (simp add: first_item_def)

lemma first_item_Nil [simp]: "first_item [] = (Inl (Exc (cps ''list index out of range'')), [])"
  by (simp add: first_item_def)

lemma length_cps: "length (cps s) = length s"
  by (simp add: cps_def)

lemma length_str_join: "sum_list (map length xs) \<le> length (str_join sep xs)"
  by (induction sep xs rule: str_join.induct) simp_all

lemma length_encode_list:
  "2 + sum_list (map (\<lambda>x. length (json_encode (Suc lvl) x)) xs)
     \<le> length (json_encode lvl (JList xs))"
proof (cases xs)
  case Nil
  then show ?thesis by (simp add: cps_def)
next
  case (Cons y ys)
  have "sum_list (map length (map (json_encode (Suc lvl)) xs))
      \<le> length (str_join (cps '','' @ newline_indent (Suc lvl)) (map (json_encode (Suc lvl)) xs))"
    by (rule length_str_join)
  then show ?thesis using Cons by (simp add: newline_indent_def comp_def cps_def)
qed

lemma encode_keys:
  "encode_str (cps ''sql_rows'') = [34] @ cps ''sql_rows'' @ [34]"
  "encode_str (cps ''vector_docs'') = [34] @ cps ''vector_docs'' @ [34]"
  by code_simp+

lemma length_dumps_ctx:
  "length (json_dumps (ctx df_sql vec_docs))
     = 37 + length (json_encode 1 (JList (map JObj df_sql)))
          + length (json_encode 1 (JList vec_docs))"
  by (simp add: json_dumps_def ctx_def encode_keys newline_indent_def length_cps)

section \<open>Facts about the index\<close>

lemma length_ranked: "length (ranked sim idx qvec k) = min k (length idx)"
  by (simp add: ranked_def)

lemma sorted_ranked:
  "sorted_wrt (\<lambda>a b. sim qvec (entry_embedding b) \<le> sim qvec (entry_embedding a))
     (ranked sim idx qvec k)"
proof -
  let ?key = "\<lambda>e. sim qvec (entry_embedding e)"
  have "sorted (map ?key (sort_key ?key idx))" by (rule sorted_sort_key)
  then have "sorted_wrt (\<lambda>a b. ?key a \<le> ?key b) (sort_key ?key idx)"
    by (simp add: sorted_map)
  then have "sorted_wrt (\<lambda>a b. ?key b \<le> ?key a) (rev (sort_key ?key idx))"
    by (simp add: sorted_wrt_rev)
  then show ?thesis unfolding ranked_def by (rule sorted_wrt_take)
qed

lemma set_ranked: "set (ranked sim idx qvec k) \<subseteq> set idx"
  using set_take_subset [of k "rev (sort_key (\<lambda>e. sim qvec (entry_embedding e)) idx)"]
  by (simp add: ranked_def)

lemma zip_documents_metadatas:
  "map (\<lambda>(d, m). JObj [(cps ''text'', JStr d), (cps ''meta'', m)])
     (zip (map entry_document es) (map entry_metadata es)) = map passage es"
  by (induction es) (simp_all add: passage_def)

lemma vector_search_on_index:
  assumes "fst (get_collection c) = Inr (index_collection sim idx)"
    and "embeddings c query = Inr qvec"
  shows "fst (vector_search c query) = Inr (map passage (ranked sim idx qvec 5))"
proof -
  obtain t where g: "get_collection c = (Inr (index_collection sim idx), t)"
    using assms(1) by (cases "get_collection c") auto
  show ?thesis
    using g assms(2)
    by (simp add: vector_search_def embed_def index_collection_def Let_def
        zip_documents_metadatas)
qed

section \<open>Facts about the rebuild\<close>



section \<open>The validator on its own fallback\<close>

text \<open>
  C4. Validating the safe default again returns it unchanged:
  \<open>extract_sql "SELECT * FROM mid_drugs LIMIT 10;"\<close> is that same string.
\<close>

theorem extract_sql_default_fixpoint:
  "extract_sql (cps ''SELECT * FROM mid_drugs LIMIT 10;'') = cps ''SELECT * FROM mid_drugs LIMIT 10;''"
  by code_simp

section \<open>Join marker and missing keyword\<close>

text \<open>
  C1, as the code has it. A candidate whose lower-cased form has no \<open>select\<close> gives the safe
  default. For a candidate \<open>a @ b\<close>, where \<open>b\<close> begins with the first case-insensitive
  \<open>select\<close> (no occurrence starts inside \<open>a\<close>) and \<open>a\<close> has no U+0130: if \<open>b\<close>, after
  \<open>strip()\<close>, contains \<open>' join '\<close> (case-insensitive), the result is the safe default.
\<close>

theorem extract_sql_join_or_no_select:
  assumes "\<not> str_contains (cps ''select'') (str_lower text) \<or>
     (\<exists>a b. text = a @ b \<and> 304 \<notin> set a
        \<and> prefix (cps ''select'') (str_lower b)
        \<and> \<not> str_contains (cps ''select'') (str_lower a @ cps ''selec'')
        \<and> str_contains (cps '' join '') (str_lower (str_strip b)))"
  shows "extract_sql text = SAFE_DEFAULT"
  using assms
proof
  assume "\<not> str_contains (cps ''select'') (str_lower text)"
  then show ?thesis by (rule extract_sql_no_select)
next
  assume "\<exists>a b. text = a @ b \<and> 304 \<notin> set a
        \<and> prefix (cps ''select'') (str_lower b)
        \<and> \<not> str_contains (cps ''select'') (str_lower a @ cps ''selec'')
        \<and> str_contains (cps '' join '') (str_lower (str_strip b))"
  then obtain a b where "text = a @ b" "304 \<notin> set a" "prefix (cps ''select'') (str_lower b)"
    "\<not> str_contains (cps ''select'') (str_lower a @ cps ''selec'')"
    "str_contains (cps '' join '') (str_lower (str_strip b))" by blast
  then show ?thesis by (simp add: extract_sql_split)
qed

text \<open>
  The theorem at the spec's scenario 1, at a candidate with text before the keyword, and
  at a candidate without \<open>select\<close>.
\<close>

theorem extract_sql_join_or_no_select_witness:
  "extract_sql (cps ''SELECT name FROM mid_drugs JOIN other'')
     = cps ''SELECT * FROM mid_drugs LIMIT 10;''
   \<and> extract_sql (cps ''Sure: select name from mid_drugs join other on 1 '')
     = cps ''SELECT * FROM mid_drugs LIMIT 10;''
   \<and> extract_sql (cps ''Which drugs treat fever?'') = cps ''SELECT * FROM mid_drugs LIMIT 10;''"
proof -
  let ?t1 = "cps ''SELECT name FROM mid_drugs JOIN other''"
  let ?a2 = "cps ''Sure: ''"
  let ?b2 = "cps ''select name from mid_drugs join other on 1 ''"
  have a: "?t1 = [] @ ?t1 \<and> 304 \<notin> set ([]::str)
      \<and> prefix (cps ''select'') (str_lower ?t1)
      \<and> \<not> str_contains (cps ''select'') (str_lower [] @ cps ''selec'')
      \<and> str_contains (cps '' join '') (str_lower (str_strip ?t1))"
    by code_simp
  have b: "cps ''Sure: select name from mid_drugs join other on 1 '' = ?a2 @ ?b2
      \<and> 304 \<notin> set ?a2
      \<and> prefix (cps ''select'') (str_lower ?b2)
      \<and> \<not> str_contains (cps ''select'') (str_lower ?a2 @ cps ''selec'')
      \<and> str_contains (cps '' join '') (str_lower (str_strip ?b2))"
    by code_simp
  have c: "\<not> str_contains (cps ''select'') (str_lower (cps ''Which drugs treat fever?''))"
    by code_simp
  have "extract_sql ?t1 = SAFE_DEFAULT"
    using a by (intro extract_sql_join_or_no_select disjI2) blast
  moreover have "extract_sql (cps ''Sure: select name from mid_drugs join other on 1 '') = SAFE_DEFAULT"
    using b by (intro extract_sql_join_or_no_select disjI2) blast
  moreover have "extract_sql (cps ''Which drugs treat fever?'') = SAFE_DEFAULT"
    using c by (intro extract_sql_join_or_no_select disjI1)
  ultimately show ?thesis by (simp add: SAFE_DEFAULT_def)
qed

text \<open>
  C1 as stated fails twice. Where the only join marker ends the text, the text from
  \<open>select\<close> on contains \<open>' join '\<close>, but \<open>strip()\<close> removes its last blank before the test
  and the candidate is returned. And behind twelve U+0130 the index found in the lower-cased
  text lies twelve places further in the text itself: the slice is \<open>"n b"\<close>, the join marker
  is cut off, and \<open>"n b"\<close> is returned.
\<close>

theorem extract_sql_trailing_join_counterexample:
  "str_find (str_lower (cps ''select name from mid_drugs join '')) (cps ''select'') = 0
   \<and> str_contains (cps '' join '') (str_lower (drop 0 (cps ''select name from mid_drugs join '')))
   \<and> extract_sql (cps ''select name from mid_drugs join '') = cps ''select name from mid_drugs join''
   \<and> extract_sql (cps ''select name from mid_drugs join '') \<noteq> cps ''SELECT * FROM mid_drugs LIMIT 10;''
   \<and> str_contains (cps '' join '') (str_lower (cps ''select a join b''))
   \<and> extract_sql (replicate 12 304 @ cps '' select a join b'') = cps ''n b''"
  by code_simp

section \<open>The column check\<close>

text \<open>
  C2, as the code has it. Let the candidate be \<open>a @ b\<close>, where \<open>b\<close> begins with the first
  case-insensitive \<open>select\<close> and \<open>a\<close> has no U+0130, and let \<open>b\<close>, stripped, contain no
  \<open>' join '\<close>. If it contains \<open>drug_name\<close> (case-insensitive), the result is the wildcard
  default. If it does not, the result is that stripped text itself, whatever identifiers it
  names: \<open>drug_name\<close> is the only column token looked for, and \<open>EXPECTED_COLUMNS\<close> is not
  consulted.
\<close>

theorem extract_sql_drug_name_wildcard:
  assumes "text = a @ b" and "304 \<notin> set a"
    and "prefix (cps ''select'') (str_lower b)"
    and "\<not> str_contains (cps ''select'') (str_lower a @ cps ''selec'')"
    and "\<not> str_contains (cps '' join '') (str_lower (str_strip b))"
  shows "(str_contains (cps ''drug_name'') (str_lower (str_strip b))
            \<longrightarrow> extract_sql text = WILDCARD_DEFAULT)
       \<and> (\<not> str_contains (cps ''drug_name'') (str_lower (str_strip b))
            \<longrightarrow> extract_sql text = str_strip b)"
  using assms by (simp add: extract_sql_split)

text \<open>
  The theorem at a candidate filtering on \<open>drug_name\<close> and at one filtering on \<open>dosage\<close>;
  neither is a column of \<open>mid_drugs\<close>.
\<close>

theorem extract_sql_drug_name_wildcard_witness:
  "cps ''drug_name'' \<notin> set EXPECTED_COLUMNS \<and> cps ''dosage'' \<notin> set EXPECTED_COLUMNS
   \<and> extract_sql (cps ''SELECT * FROM mid_drugs WHERE drug_name = 'Aspirin' '')
       = cps ''SELECT * FROM mid_drugs WHERE name LIKE '%keyword%' LIMIT 10;''
   \<and> extract_sql (cps ''Query: SELECT name FROM mid_drugs WHERE dosage > 1'')
       = cps ''SELECT name FROM mid_drugs WHERE dosage > 1''"
proof -
  let ?t = "cps ''SELECT * FROM mid_drugs WHERE drug_name = 'Aspirin' ''"
  let ?a = "cps ''Query: ''"
  let ?b = "cps ''SELECT name FROM mid_drugs WHERE dosage > 1''"
  have t1: "?t = [] @ ?t" by simp
  have t2: "304 \<notin> set ([]::str)" by simp
  have t3: "prefix (cps ''select'') (str_lower ?t)" by code_simp
  have t4: "\<not> str_contains (cps ''select'') (str_lower [] @ cps ''selec'')" by code_simp
  have t5: "\<not> str_contains (cps '' join '') (str_lower (str_strip ?t))" by code_simp
  have t6: "str_contains (cps ''drug_name'') (str_lower (str_strip ?t))" by code_simp
  have u1: "cps ''Query: SELECT name FROM mid_drugs WHERE dosage > 1'' = ?a @ ?b" by code_simp
  have u2: "304 \<notin> set ?a" by code_simp
  have u3: "prefix (cps ''select'') (str_lower ?b)" by code_simp
  have u4: "\<not> str_contains (cps ''select'') (str_lower ?a @ cps ''selec'')" by code_simp
  have u5: "\<not> str_contains (cps '' join '') (str_lower (str_strip ?b))" by code_simp
  have u6: "\<not> str_contains (cps ''drug_name'') (str_lower (str_strip ?b))" by code_simp
  have u7: "str_strip ?b = ?b" by code_simp
  have "extract_sql ?t = WILDCARD_DEFAULT"
    using extract_sql_drug_name_wildcard [OF t1 t2 t3 t4 t5] t6 by blast
  moreover have "extract_sql (cps ''Query: SELECT name FROM mid_drugs WHERE dosage > 1'') = ?b"
    using extract_sql_drug_name_wildcard [OF u1 u2 u3 u4 u5] u6 u7 by simp
  moreover have "cps ''drug_name'' \<notin> set EXPECTED_COLUMNS \<and> cps ''dosage'' \<notin> set EXPECTED_COLUMNS"
    by code_simp
  ultimately show ?thesis by (simp add: WILDCARD_DEFAULT_def)
qed

text \<open>
  C2 as stated fails: \<open>price\<close> is not among \<open>EXPECTED_COLUMNS\<close>, the candidate filters on
  it, and the validator returns the candidate unchanged. Behind twenty U+0130 even a
  candidate with \<open>drug_name\<close> does not give the wildcard default: the slice is \<open>"m t"\<close>.
\<close>

theorem extract_sql_unknown_column_counterexample:
  "cps ''price'' \<notin> set EXPECTED_COLUMNS
   \<and> extract_sql (cps ''SELECT * FROM mid_drugs WHERE price > 5'')
       = cps ''SELECT * FROM mid_drugs WHERE price > 5''
   \<and> extract_sql (cps ''SELECT * FROM mid_drugs WHERE price > 5'')
       \<noteq> cps ''SELECT * FROM mid_drugs WHERE name LIKE '%keyword%' LIMIT 10;''
   \<and> extract_sql (replicate 20 304 @ cps ''select drug_name from t'') = cps ''m t''"
  by code_simp

section \<open>Precedence of the join check\<close>

text \<open>
  C10, as the code has it. Let the candidate be \<open>a @ b\<close>, where \<open>b\<close> begins with the first
  case-insensitive \<open>select\<close> and \<open>a\<close> has no U+0130. When \<open>b\<close>, stripped, contains both
  \<open>' join '\<close> and \<open>drug_name\<close>, the join check wins: the result is the safe default and not
  the wildcard default.
\<close>

theorem extract_sql_join_before_drug_name:
  assumes "text = a @ b" and "304 \<notin> set a"
    and "prefix (cps ''select'') (str_lower b)"
    and "\<not> str_contains (cps ''select'') (str_lower a @ cps ''selec'')"
    and "str_contains (cps '' join '') (str_lower (str_strip b))"
    and "str_contains (cps ''drug_name'') (str_lower (str_strip b))"
  shows "extract_sql text = SAFE_DEFAULT \<and> extract_sql text \<noteq> WILDCARD_DEFAULT"
  using assms defaults_differ by (simp add: extract_sql_split)

text \<open>The theorem at a candidate with both markers and text before the keyword.\<close>

theorem extract_sql_join_before_drug_name_witness:
  "extract_sql (cps ''Try: SELECT drug_name FROM mid_drugs JOIN doses ON 1'')
     = cps ''SELECT * FROM mid_drugs LIMIT 10;''
   \<and> extract_sql (cps ''Try: SELECT drug_name FROM mid_drugs JOIN doses ON 1'')
     \<noteq> cps ''SELECT * FROM mid_drugs WHERE name LIKE '%keyword%' LIMIT 10;''"
proof -
  let ?a = "cps ''Try: ''"
  let ?b = "cps ''SELECT drug_name FROM mid_drugs JOIN doses ON 1''"
  have h1: "cps ''Try: SELECT drug_name FROM mid_drugs JOIN doses ON 1'' = ?a @ ?b" by code_simp
  have h2: "304 \<notin> set ?a" by code_simp
  have h3: "prefix (cps ''select'') (str_lower ?b)" by code_simp
  have h4: "\<not> str_contains (cps ''select'') (str_lower ?a @ cps ''selec'')" by code_simp
  have h5: "str_contains (cps '' join '') (str_lower (str_strip ?b))" by code_simp
  have h6: "str_contains (cps ''drug_name'') (str_lower (str_strip ?b))" by code_simp
  have d: "cps ''SELECT * FROM mid_drugs LIMIT 10;''
      \<noteq> cps ''SELECT * FROM mid_drugs WHERE name LIKE '%keyword%' LIMIT 10;''"
    by code_simp
  from extract_sql_join_before_drug_name [OF h1 h2 h3 h4 h5 h6]
  have e: "extract_sql (cps ''Try: SELECT drug_name FROM mid_drugs JOIN doses ON 1'')
      = cps ''SELECT * FROM mid_drugs LIMIT 10;''"
    by (simp only: SAFE_DEFAULT_def)
  show ?thesis
  proof (intro conjI)
    show "extract_sql (cps ''Try: SELECT drug_name FROM mid_drugs JOIN doses ON 1'')
      = cps ''SELECT * FROM mid_drugs LIMIT 10;''" by (fact e)
    show "extract_sql (cps ''Try: SELECT drug_name FROM mid_drugs JOIN doses ON 1'')
      \<noteq> cps ''SELECT * FROM mid_drugs WHERE name LIKE '%keyword%' LIMIT 10;''"
      unfolding e by (fact d)
  qed
qed

text \<open>
  C10 as stated fails twice. Where the join marker ends the text, \<open>strip()\<close> removes its
  last blank, the join test misses it, and the \<open>drug_name\<close> test answers with the wildcard
  default. And behind nine U+0130 the slice begins at \<open>join\<close>, without the blank before it:
  again the join test fails and the wildcard default is returned.
\<close>

theorem extract_sql_join_precedence_counterexample:
  "str_find (str_lower (cps ''select drug_name from mid_drugs join '')) (cps ''select'') = 0
   \<and> str_contains (cps '' join '') (str_lower (drop 0 (cps ''select drug_name from mid_drugs join '')))
   \<and> str_contains (cps ''drug_name'') (str_lower (drop 0 (cps ''select drug_name from mid_drugs join '')))
   \<and> extract_sql (cps ''select drug_name from mid_drugs join '')
       = cps ''SELECT * FROM mid_drugs WHERE name LIKE '%keyword%' LIMIT 10;''
   \<and> extract_sql (cps ''select drug_name from mid_drugs join '')
       \<noteq> cps ''SELECT * FROM mid_drugs LIMIT 10;''
   \<and> str_contains (cps '' join '') (str_lower (cps ''select a join b where drug_name = 1''))
   \<and> str_contains (cps ''drug_name'') (str_lower (cps ''select a join b where drug_name = 1''))
   \<and> extract_sql (replicate 9 304 @ cps ''select a join b where drug_name = 1'')
       = cps ''SELECT * FROM mid_drugs WHERE name LIKE '%keyword%' LIMIT 10;''"
  by code_simp

section \<open>What the validator can return\<close>




section \<open>Approximate retrieval\<close>

text \<open>
  C5, as the code has it. \<open>vector_search\<close> asks the index for \<open>n_results = 5\<close>. When the
  collection is obtained and the embedding computed, it returns the passages
  \<open>{"text": d, "meta": m}\<close> of the entries that the index ranks first: \<open>min(5, n)\<close> passages
  for an index of \<open>n\<close> entries, so at most five and none for an empty index, entries of the
  index, in order of non-increasing similarity to the question; the similarities themselves
  are not in the result. There is no handler: an exception raised by the collection access,
  the embedding call or the index query leaves \<open>vector_search\<close> as that exception.
\<close>

theorem vector_search_outcome:
  "(fst (get_collection c) = Inr (index_collection sim idx) \<and> embeddings c query = Inr qvec
      \<longrightarrow> (\<exists>es. fst (vector_search c query) = Inr (map passage es)
            \<and> length es = min 5 (length idx) \<and> length es \<le> 5
            \<and> set es \<subseteq> set idx
            \<and> sorted_wrt (\<lambda>a b. sim qvec (entry_embedding b) \<le> sim qvec (entry_embedding a)) es
            \<and> (idx = [] \<longrightarrow> fst (vector_search c query) = Inr [])))
   \<and> ((fst (get_collection c) = Inl e \<or>
         (\<exists>col. fst (get_collection c) = Inr col \<and>
            (embeddings c query = Inl e \<or>
             (\<exists>v. embeddings c query = Inr v \<and> col_query col v 5 = Inl e))))
        \<longrightarrow> fst (vector_search c query) = Inl e)"
proof (intro conjI impI)
  assume h: "fst (get_collection c) = Inr (index_collection sim idx) \<and> embeddings c query = Inr qvec"
  let ?es = "ranked sim idx qvec 5"
  have r: "fst (vector_search c query) = Inr (map passage ?es)"
    using h by (intro vector_search_on_index) simp_all
  have "length ?es = min 5 (length idx)" by (rule length_ranked)
  moreover have "set ?es \<subseteq> set idx" by (rule set_ranked)
  moreover have "sorted_wrt (\<lambda>a b. sim qvec (entry_embedding b) \<le> sim qvec (entry_embedding a)) ?es"
    by (rule sorted_ranked)
  moreover have "idx = [] \<longrightarrow> fst (vector_search c query) = Inr []"
    using r by (simp add: ranked_def)
  ultimately show "\<exists>es. fst (vector_search c query) = Inr (map passage es)
            \<and> length es = min 5 (length idx) \<and> length es \<le> 5
            \<and> set es \<subseteq> set idx
            \<and> sorted_wrt (\<lambda>a b. sim qvec (entry_embedding b) \<le> sim qvec (entry_embedding a)) es
            \<and> (idx = [] \<longrightarrow> fst (vector_search c query) = Inr [])"
    using r by (intro exI [of _ ?es]) simp
next
  assume "fst (get_collection c) = Inl e \<or>
         (\<exists>col. fst (get_collection c) = Inr col \<and>
            (embeddings c query = Inl e \<or>
             (\<exists>v. embeddings c query = Inr v \<and> col_query col v 5 = Inl e)))"
  then show "fst (vector_search c query) = Inl e"
  proof (elim disjE exE conjE)
    assume "fst (get_collection c) = Inl e"
    then obtain t where "get_collection c = (Inl e, t)"
      by (cases "get_collection c") auto
    then show ?thesis by (simp add: vector_search_def)
  next
    fix col
    assume "fst (get_collection c) = Inr col" and e: "embeddings c query = Inl e"
    then obtain t where "get_collection c = (Inr col, t)"
      by (cases "get_collection c") auto
    then show ?thesis using e by (simp add: vector_search_def embed_def)
  next
    fix col v
    assume "fst (get_collection c) = Inr col" and e: "embeddings c query = Inr v"
      and q: "col_query col v 5 = Inl e"
    then obtain t where "get_collection c = (Inr col, t)"
      by (cases "get_collection c") auto
    then show ?thesis using e q by (simp add: vector_search_def embed_def)
  qed
qed

text \<open>
  The theorem on an index of seven entries, of which the five nearest come back in order,
  on an index without entries, and on an embedding model that cannot be reached.
\<close>

theorem vector_search_outcome_witness:
  "fst (vector_search (reader seven_entries) (cps ''What is aspirin?''))
     = Inr (map passage [doc_entry 2 7, doc_entry 4 6, doc_entry 1 9, doc_entry 5 3, doc_entry 6 12])
   \<and> (\<exists>es. fst (vector_search (reader seven_entries) (cps ''What is aspirin?''))
          = Inr (map passage es) \<and> length es = 5 \<and> set es \<subseteq> set seven_entries
        \<and> sorted_wrt (\<lambda>a b. nearness 7 (entry_embedding b) \<le> nearness 7 (entry_embedding a)) es)
   \<and> fst (vector_search (reader []) (cps ''What is aspirin?'')) = Inr []
   \<and> fst (vector_search (stub\<lparr>embeddings := \<lambda>text. Inl (Exc (cps ''connection refused''))\<rparr>)
        (cps ''What is aspirin?'')) = Inl (Exc (cps ''connection refused''))"
proof -
  let ?q = "cps ''What is aspirin?''"
  let ?c3 = "stub\<lparr>embeddings := \<lambda>text. Inl (Exc (cps ''connection refused''))\<rparr>"
  have a: "fst (get_collection (reader seven_entries)) = Inr (index_collection nearness seven_entries)
      \<and> embeddings (reader seven_entries) ?q = Inr 7"
    by (simp add: reader_def stub_def get_collection_def)
  have b: "fst (get_collection (reader [])) = Inr (index_collection nearness [])
      \<and> embeddings (reader []) ?q = Inr 7"
    by (simp add: reader_def stub_def get_collection_def)
  obtain col where col: "client_get_collection stub = Inr col" by (simp add: stub_def)
  have c: "fst (get_collection ?c3) = Inr col
      \<and> embeddings ?c3 ?q = Inl (Exc (cps ''connection refused''))"
    using col by (simp add: get_collection_def)
  have len: "min 5 (length seven_entries) = 5" by code_simp
  have 0: "fst (vector_search (reader seven_entries) ?q)
     = Inr (map passage [doc_entry 2 7, doc_entry 4 6, doc_entry 1 9, doc_entry 5 3, doc_entry 6 12])"
    by code_simp
  from vector_search_outcome [of "reader seven_entries" nearness seven_entries ?q 7] a len
  have 1: "\<exists>es. fst (vector_search (reader seven_entries) ?q) = Inr (map passage es)
      \<and> length es = 5 \<and> set es \<subseteq> set seven_entries
      \<and> sorted_wrt (\<lambda>a b. nearness 7 (entry_embedding b) \<le> nearness 7 (entry_embedding a)) es"
    by auto
  from vector_search_outcome [of "reader []" nearness "[]" ?q 7] b
  have 2: "fst (vector_search (reader []) ?q) = Inr []" by blast
  from vector_search_outcome [of ?c3 _ _ ?q _ "Exc (cps ''connection refused'')"] c
  have 3: "fst (vector_search ?c3 ?q) = Inl (Exc (cps ''connection refused''))" by blast
  from 0 1 2 3 show ?thesis by blast
qed

text \<open>
  C5 as stated fails: when the embedding model or the vector store cannot be reached,
  \<open>vector_search\<close> raises instead of returning an empty sequence.
\<close>

theorem vector_search_unreachable_counterexample:
  "vector_search (stub\<lparr>embeddings := \<lambda>text. Inl (Exc (cps ''connection refused''))\<rparr>)
      (cps ''What is aspirin?'')
     = (Inl (Exc (cps ''connection refused'')),
        [EvGetCollection, EvEmbeddings (cps ''What is aspirin?'')])
   \<and> fst (vector_search (stub\<lparr>client_get_collection := Inl (Exc (cps ''database is locked'')),
                               client_create_collection := Inl (Exc (cps ''database is locked''))\<rparr>)
        (cps ''What is aspirin?'')) = Inl (Exc (cps ''database is locked''))"
  by code_simp

section \<open>The assembled context\<close>

text \<open>
  C6, as the code has it. \<open>answer_hybrid\<close> takes no size bound. The context holds every row
  and every passage, whole and in the order given, it is the content of the assistant
  message, and its serialisation has at least the 41 characters of the empty context plus
  the serialised length of each row and of each passage: nothing is dropped or cut.
\<close>

theorem ctx_has_no_cap:
  "ctx df_sql vec_docs
     = JObj [(cps ''sql_rows'', JList (map JObj df_sql)), (cps ''vector_docs'', JList vec_docs)]
   \<and> content (answer_messages question df_sql vec_docs ! 1) = json_dumps (ctx df_sql vec_docs)
   \<and> 41 + sum_list (map (\<lambda>r. length (json_encode 2 (JObj r))) df_sql)
         + sum_list (map (\<lambda>d. length (json_encode 2 d)) vec_docs)
       \<le> length (json_dumps (ctx df_sql vec_docs))"
proof -
  have a: "2 + sum_list (map (\<lambda>r. length (json_encode 2 (JObj r))) df_sql)
      \<le> length (json_encode 1 (JList (map JObj df_sql)))"
    using length_encode_list [of 1 "map JObj df_sql"] by (simp add: comp_def numeral_2_eq_2)
  have b: "2 + sum_list (map (\<lambda>d. length (json_encode 2 d)) vec_docs)
      \<le> length (json_encode 1 (JList vec_docs))"
    using length_encode_list [of 1 vec_docs] by (simp add: numeral_2_eq_2)
  have "41 + sum_list (map (\<lambda>r. length (json_encode 2 (JObj r))) df_sql)
         + sum_list (map (\<lambda>d. length (json_encode 2 d)) vec_docs)
       \<le> length (json_dumps (ctx df_sql vec_docs))"
    using a b by (simp add: length_dumps_ctx)
  then show ?thesis by (simp add: ctx_def answer_messages_def)
qed

text \<open>
  C6 as stated fails: one row and one passage serialise to 184 characters, above a bound of
  100, and the empty context alone has 41.
\<close>

theorem ctx_exceeds_cap_counterexample:
  "length (json_dumps (ctx [[(cps ''name'', JStr (cps ''Aspirin''))]]
      [JObj [(cps ''text'', JStr (cps ''Aspirin relieves pain'')),
             (cps ''meta'', JObj [(cps ''name'', JStr (cps ''Aspirin''))])]])) = 184
   \<and> \<not> (184::nat) \<le> 100
   \<and> length (json_dumps (ctx [] [])) = 41"
  by code_simp

section \<open>Errors of the structured store\<close>



section \<open>Errors that leave the orchestrator\<close>

text \<open>
  C8, as the code has it. The \<open>try\<close> in \<open>ask_mid\<close> encloses \<open>run_sql\<close> only. An exception
  raised by the chat model while the query is generated, by \<open>vector_search\<close>, or by the chat
  model in the answer step is not caught: \<open>ask_mid\<close> raises it to its caller.
\<close>

theorem ask_mid_uncaught:
  assumes "generate c (chat_prompt (sql_messages question)) = Inl e \<or>
     (\<exists>raw df. generate c (chat_prompt (sql_messages question)) = Inr raw
        \<and> fst (run_sql c (extract_sql raw)) = Inr df
        \<and> (fst (vector_search c question) = Inl e \<or>
           (\<exists>vec. fst (vector_search c question) = Inr vec
              \<and> generate c (chat_prompt (answer_messages question df vec)) = Inl e)))"
  shows "fst (ask_mid c question) = Inl e"
  using assms
proof (elim disjE exE conjE)
  assume "generate c (chat_prompt (sql_messages question)) = Inl e"
  then show ?thesis by (simp add: ask_mid_def generate_sql_result)
next
  fix raw df
  assume g: "generate c (chat_prompt (sql_messages question)) = Inr raw"
    and r: "fst (run_sql c (extract_sql raw)) = Inr df"
    and v: "fst (vector_search c question) = Inl e"
  obtain t where rt: "run_sql c (extract_sql raw) = (Inr df, t)"
    using r by (cases "run_sql c (extract_sql raw)") auto
  obtain t' where vt: "vector_search c question = (Inl e, t')"
    using v by (cases "vector_search c question") auto
  show ?thesis using g rt vt by (simp add: ask_mid_def generate_sql_result)
next
  fix raw df vec
  assume g: "generate c (chat_prompt (sql_messages question)) = Inr raw"
    and r: "fst (run_sql c (extract_sql raw)) = Inr df"
    and v: "fst (vector_search c question) = Inr vec"
    and a: "generate c (chat_prompt (answer_messages question df vec)) = Inl e"
  obtain t where rt: "run_sql c (extract_sql raw) = (Inr df, t)"
    using r by (cases "run_sql c (extract_sql raw)") auto
  obtain t' where vt: "vector_search c question = (Inr vec, t')"
    using v by (cases "vector_search c question") auto
  show ?thesis using g rt vt a
    by (simp add: ask_mid_def generate_sql_result answer_hybrid_def chat_def Let_def)
qed

text \<open>
  The theorem on a chat model that is down, on an embedding model that is missing and on a
  chat model that fails in the answer step.
\<close>

theorem ask_mid_uncaught_witness:
  "fst (ask_mid (stub\<lparr>generate := chat_down\<rparr>) (cps ''What is aspirin?''))
     = Inl (Exc (cps ''connection refused''))
   \<and> fst (ask_mid (stub\<lparr>embeddings := \<lambda>text. Inl (Exc (cps ''embedding model not found''))\<rparr>)
        (cps ''What is aspirin?'')) = Inl (Exc (cps ''embedding model not found''))
   \<and> fst (ask_mid (stub\<lparr>generate := answer_down\<rparr>) (cps ''What is aspirin?''))
     = Inl (Exc (cps ''connection refused''))"
proof -
  let ?q = "cps ''What is aspirin?''"
  let ?df = "[[(cps ''name'', JStr (cps ''Aspirin''))]] :: row list"
  let ?vec = "[JObj [(cps ''text'', JStr (cps ''Aspirin relieves pain'')),
                     (cps ''meta'', JObj [(cps ''name'', JStr (cps ''Aspirin''))])]]"
  let ?c1 = "stub\<lparr>generate := chat_down\<rparr>"
  let ?c2 = "stub\<lparr>embeddings := \<lambda>text. Inl (Exc (cps ''embedding model not found''))\<rparr>"
  let ?c3 = "stub\<lparr>generate := answer_down\<rparr>"
  have a: "generate ?c1 (chat_prompt (sql_messages ?q)) = Inl (Exc (cps ''connection refused''))"
    by code_simp
  have b1: "generate ?c2 (chat_prompt (sql_messages ?q))
      = Inr (cps ''Sure: SELECT name FROM mid_drugs LIMIT 2'')" by code_simp
  have b2: "fst (run_sql ?c2 (extract_sql (cps ''Sure: SELECT name FROM mid_drugs LIMIT 2''))) = Inr ?df"
    by code_simp
  have b3: "fst (vector_search ?c2 ?q) = Inl (Exc (cps ''embedding model not found''))"
    by code_simp
  have c1: "generate ?c3 (chat_prompt (sql_messages ?q)) = Inr (cps ''SELECT name FROM mid_drugs LIMIT 2'')"
    by code_simp
  have c2: "fst (run_sql ?c3 (extract_sql (cps ''SELECT name FROM mid_drugs LIMIT 2''))) = Inr ?df"
    by code_simp
  have c3: "fst (vector_search ?c3 ?q) = Inr ?vec" by code_simp
  have c4: "generate ?c3 (chat_prompt (answer_messages ?q ?df ?vec))
      = Inl (Exc (cps ''connection refused''))" by code_simp
  have "fst (ask_mid ?c1 ?q) = Inl (Exc (cps ''connection refused''))"
    using a by (intro ask_mid_uncaught disjI1)
  moreover have "fst (ask_mid ?c2 ?q) = Inl (Exc (cps ''embedding model not found''))"
    using b1 b2 b3 by (intro ask_mid_uncaught disjI2) blast
  moreover have "fst (ask_mid ?c3 ?q) = Inl (Exc (cps ''connection refused''))"
    using c1 c2 c3 c4 by (intro ask_mid_uncaught disjI2) blast
  ultimately show ?thesis by simp
qed

text \<open>
  C8 as stated fails: the query is generated and executed, the passages are retrieved, the
  chat model then refuses the connection, and \<open>ask_mid\<close> ends with that exception, not with
  a string.
\<close>

theorem ask_mid_answer_failure_counterexample:
  "fst (chat (stub\<lparr>generate := answer_down\<rparr>) (sql_messages (cps ''Is aspirin habit forming?'')))
     = Inr (cps ''SELECT name FROM mid_drugs LIMIT 2'')
   \<and> fst (run_sql (stub\<lparr>generate := answer_down\<rparr>) (cps ''SELECT name FROM mid_drugs LIMIT 2''))
     = Inr [[(cps ''name'', JStr (cps ''Aspirin''))]]
   \<and> ask_mid (stub\<lparr>generate := answer_down\<rparr>) (cps ''Is aspirin habit forming?'')
     = (Inl (Exc (cps ''connection refused'')),
        [EvGenerate (chat_prompt (sql_messages (cps ''Is aspirin habit forming?''))),
         EvConnect, EvReadSql (cps ''SELECT name FROM mid_drugs LIMIT 2''), EvClose,
         EvGetCollection, EvEmbeddings (cps ''Is aspirin habit forming?''), EvQuery 7 5,
         EvGenerate (chat_prompt (answer_messages (cps ''Is aspirin habit forming?'')
            [[(cps ''name'', JStr (cps ''Aspirin''))]]
            [JObj [(cps ''text'', JStr (cps ''Aspirin relieves pain'')),
                   (cps ''meta'', JObj [(cps ''name'', JStr (cps ''Aspirin''))])]]))])"
  by code_simp

section \<open>Rebuilding the index\<close>




end
